theory Spec2Isabelle
  imports Main "HOL-Library.Word" "HOL-Library.AList"
begin

unbundle bit_operations_syntax

section \<open>Python values\<close>

text \<open>
  A Python \<open>str\<close> is a sequence of Unicode code points: \<open>len\<close>, slicing and
  \<open>strip\<close> all count code points, so a string is a list of code points here.
  \<open>lit\<close> turns an ASCII literal of the source into such a list.
\<close>

type_synonym pystr = "nat list"

definition lit :: "string \<Rightarrow> pystr" where
  "lit s = map of_char s"

text \<open>
  \<open>str.isspace\<close> for one code point, and \<open>str.strip()\<close> without arguments, which
  removes the leading and the trailing run of such code points.
\<close>

definition py_isspace :: "nat \<Rightarrow> bool" where
  "py_isspace c =
     ((0x09 \<le> c \<and> c \<le> 0x0D) \<or> (0x1C \<le> c \<and> c \<le> 0x20) \<or> c = 0x85 \<or> c = 0xA0
      \<or> c = 0x1680 \<or> (0x2000 \<le> c \<and> c \<le> 0x200A) \<or> c = 0x2028 \<or> c = 0x2029
      \<or> c = 0x202F \<or> c = 0x205F \<or> c = 0x3000)"

definition py_strip :: "pystr \<Rightarrow> pystr" where
  "py_strip s = rev (dropWhile py_isspace (rev (dropWhile py_isspace s)))"

text \<open>
  The values \<open>json.loads\<close> produces. A float is kept as its IEEE 754 double bit pattern;
  an object is the item list of the resulting \<open>dict\<close> (keys distinct).
\<close>

datatype json =
    JNull
  | JBool bool
  | JInt int
  | JFloat "64 word"
  | JStr pystr
  | JArr "json list"
  | JObj "(pystr \<times> json) list"

text \<open>Truth value of a Python object, as \<open>not x\<close> tests it.\<close>

fun py_truthy :: "json \<Rightarrow> bool" where
  "py_truthy JNull = False"
| "py_truthy (JBool b) = b"
| "py_truthy (JInt i) = (i \<noteq> 0)"
| "py_truthy (JFloat w) = (w AND 0x7FFFFFFFFFFFFFFF \<noteq> 0)"
| "py_truthy (JStr s) = (s \<noteq> [])"
| "py_truthy (JArr xs) = (xs \<noteq> [])"
| "py_truthy (JObj kvs) = (kvs \<noteq> [])"

fun py_type_name :: "json \<Rightarrow> pystr" where
  "py_type_name JNull = lit ''NoneType''"
| "py_type_name (JBool b) = lit ''bool''"
| "py_type_name (JInt i) = lit ''int''"
| "py_type_name (JFloat w) = lit ''float''"
| "py_type_name (JStr s) = lit ''str''"
| "py_type_name (JArr xs) = lit ''list''"
| "py_type_name (JObj kvs) = lit ''dict''"

text \<open>\<open>d.get(k)\<close>: the value stored under \<open>k\<close>, or \<open>None\<close>.\<close>

definition dict_get :: "(pystr \<times> json) list \<Rightarrow> pystr \<Rightarrow> json" where
  "dict_get d k = (case map_of d k of None \<Rightarrow> JNull | Some v \<Rightarrow> v)"

text \<open>
  The message of the \<open>AttributeError\<close> raised by \<open>x.get\<close> on an object without it:
  the type name and the attribute name, each between two apostrophes (code point 39).
\<close>

definition no_attribute :: "pystr \<Rightarrow> pystr \<Rightarrow> pystr" where
  "no_attribute ty attr =
     [39] @ ty @ [39] @ lit '' object has no attribute '' @ [39] @ attr @ [39]"

section \<open>Encoding a response body\<close>

text \<open>
  A response body is produced by \<open>json.dumps(content, ensure_ascii=False, allow_nan=False)\<close>
  followed by \<open>.encode("utf-8")\<close>. The first step raises on a float that is a NaN or an
  infinity (exponent bits all set); the second raises on a string, or a key, that holds a
  surrogate code point (U+D800 to U+DFFF), which \<open>json.loads\<close> yields for an escaped
  surrogate that is not part of a pair. \<open>renderable\<close> tells whether both steps succeed.
\<close>

definition is_surrogate :: "nat \<Rightarrow> bool" where
  "is_surrogate c = (0xD800 \<le> c \<and> c \<le> 0xDFFF)"

definition utf8_encodable :: "pystr \<Rightarrow> bool" where
  "utf8_encodable s = list_all (\<lambda>c. \<not> is_surrogate c) s"

fun renderable :: "json \<Rightarrow> bool"
  and renderable_list :: "json list \<Rightarrow> bool"
  and renderable_items :: "(pystr \<times> json) list \<Rightarrow> bool" where
  "renderable JNull = True"
| "renderable (JBool b) = True"
| "renderable (JInt i) = True"
| "renderable (JFloat w) = (w AND 0x7FF0000000000000 \<noteq> 0x7FF0000000000000)"
| "renderable (JStr s) = utf8_encodable s"
| "renderable (JArr xs) = renderable_list xs"
| "renderable (JObj kvs) = renderable_items kvs"
| "renderable_list [] = True"
| "renderable_list (x # xs) = (renderable x \<and> renderable_list xs)"
| "renderable_items [] = True"
| "renderable_items ((k, v) # kvs) = (utf8_encodable k \<and> renderable v \<and> renderable_items kvs)"

section \<open>Exceptions\<close>

text \<open>
  The exception classes the handlers tell apart: \<open>fastapi.HTTPException\<close> with its status
  code and detail, \<open>requests.Timeout\<close>, and every other subclass of \<open>Exception\<close>. The last
  two carry the text \<open>str(e)\<close> yields.
\<close>

datatype exn =
    HTTPException int pystr
  | Timeout pystr
  | OtherException pystr

text \<open>
  \<open>str(e)\<close>. What it yields for an \<open>HTTPException\<close> is decided by the installed
  Starlette, so that is the parameter \<open>hs\<close>.
\<close>

fun exn_str :: "(int \<Rightarrow> pystr \<Rightarrow> pystr) \<Rightarrow> exn \<Rightarrow> pystr" where
  "exn_str hs (HTTPException sc d) = hs sc d"
| "exn_str hs (Timeout m) = m"
| "exn_str hs (OtherException m) = m"

fun is_Timeout :: "exn \<Rightarrow> bool" where
  "is_Timeout (Timeout m) = True"
| "is_Timeout e = False"

section \<open>The translation provider\<close>

text \<open>
  One call of \<open>requests.post\<close>: the URL, the form fields and the timeout in seconds.
\<close>

record post_call =
  url :: pystr
  data :: "(pystr \<times> pystr) list"
  timeout :: nat

text \<open>
  What \<open>resp.json()\<close> does: it returns the decoded value or raises, with a message.
\<close>

datatype json_outcome = JsonValue json | JsonRaises pystr

record response =
  status_code :: int
  resp_text :: pystr
  resp_json :: json_outcome

text \<open>
  What the call does: it returns a response, raises \<open>requests.Timeout\<close>, or raises
  another exception (connection refused, DNS failure, ...).
\<close>

datatype post_outcome = Responded response | TimedOut pystr | Failed pystr

section \<open>POST /translate\<close>

record TranslateRequest =
  req_text :: pystr
  req_source :: "pystr option"
  req_target :: pystr

text \<open>\<open>req.source or "auto"\<close>.\<close>

definition source_or_auto :: "pystr option \<Rightarrow> pystr" where
  "source_or_auto s = (case s of None \<Rightarrow> lit ''auto'' | Some v \<Rightarrow> if v = [] then lit ''auto'' else v)"

definition translate_call :: "TranslateRequest \<Rightarrow> post_call" where
  "translate_call req =
     \<lparr> url = lit ''https://libretranslate.de/translate'',
       data = [(lit ''q'', req_text req),
               (lit ''source'', source_or_auto (req_source req)),
               (lit ''target'', req_target req),
               (lit ''format'', lit ''text'')],
       timeout = 15 \<rparr>"

text \<open>
  The body of the \<open>try\<close> block. It takes the log of outbound calls made so far and
  returns it extended; \<open>Inl\<close> is the exception that leaves the block.
\<close>

definition translate_try ::
  "(post_call \<Rightarrow> post_outcome) \<Rightarrow> TranslateRequest \<Rightarrow> post_call list
     \<Rightarrow> (exn + json) \<times> post_call list" where
  "translate_try post req log =
     (let call = translate_call req; log' = log @ [call] in
      case post call of
        TimedOut m \<Rightarrow> (Inl (Timeout m), log')
      | Failed m \<Rightarrow> (Inl (OtherException m), log')
      | Responded resp \<Rightarrow>
          if status_code resp \<noteq> 200 then
            (Inl (HTTPException 502
                   (lit ''Translation service error: '' @ take 200 (resp_text resp))), log')
          else
            (case resp_json resp of
               JsonRaises m \<Rightarrow> (Inl (OtherException m), log')
             | JsonValue (JObj d) \<Rightarrow>
                 (let translated = dict_get d (lit ''translatedText'') in
                  if \<not> py_truthy translated then
                    (Inl (HTTPException 502 (lit ''Invalid response from translation service'')),
                     log')
                  else (Inr (JObj [(lit ''translated'', translated)]), log'))
             | JsonValue v \<Rightarrow>
                 (Inl (OtherException (no_attribute (py_type_name v) (lit ''get''))), log')))"

text \<open>
  The handler: the blank-text check, the \<open>try\<close> block and its two \<open>except\<close> clauses, in
  the order of the source. \<open>Inl\<close> is the exception the handler raises.
\<close>

definition translate ::
  "(int \<Rightarrow> pystr \<Rightarrow> pystr) \<Rightarrow> (post_call \<Rightarrow> post_outcome) \<Rightarrow> TranslateRequest
     \<Rightarrow> (exn + json) \<times> post_call list" where
  "translate hs post req =
     (if py_strip (req_text req) = [] then
        (Inl (HTTPException 400 (lit ''Text cannot be empty'')), [])
      else
        (case translate_try post req [] of
           (Inr v, log) \<Rightarrow> (Inr v, log)
         | (Inl e, log) \<Rightarrow>
             if is_Timeout e then
               (Inl (HTTPException 504 (lit ''Translation service timeout'')), log)
             else (Inl (HTTPException 500 (exn_str hs e)), log)))"

section \<open>The request model and the endpoint\<close>

text \<open>
  Validation of the request body against the model \<open>TranslateRequest\<close>: \<open>text\<close> is a
  required string of length at least 1, \<open>source\<close> an optional string (or \<open>null\<close>) with
  default \<open>"auto"\<close>, \<open>target\<close> a required string. The errors of all fields are collected,
  in the order of the fields; keys the model does not declare are ignored.

  A string field with a length constraint is read as UTF-8 before its length is taken, and
  a string holding a surrogate code point fails there (\<open>string_unicode\<close>); a string field
  without a constraint is passed on as it is. So \<open>min_length\<close> is \<open>Some n\<close> for
  \<open>Field(..., min_length=n)\<close> and \<open>None\<close> for a field declared without it.
\<close>

datatype verror =
    Missing pystr
  | StringType pystr
  | StringUnicode pystr
  | StringTooShort pystr
  | ModelType

definition required_str ::
  "pystr \<Rightarrow> nat option \<Rightarrow> (pystr \<times> json) list \<Rightarrow> verror list + pystr" where
  "required_str field min_length d =
     (case map_of d field of
        None \<Rightarrow> Inl [Missing field]
      | Some (JStr s) \<Rightarrow>
          (case min_length of
             None \<Rightarrow> Inr s
           | Some n \<Rightarrow>
               if \<not> utf8_encodable s then Inl [StringUnicode field]
               else if length s < n then Inl [StringTooShort field]
               else Inr s)
      | Some v \<Rightarrow> Inl [StringType field])"

definition optional_str ::
  "pystr \<Rightarrow> pystr option \<Rightarrow> (pystr \<times> json) list \<Rightarrow> verror list + pystr option" where
  "optional_str field dflt d =
     (case map_of d field of
        None \<Rightarrow> Inr dflt
      | Some JNull \<Rightarrow> Inr None
      | Some (JStr s) \<Rightarrow> Inr (Some s)
      | Some v \<Rightarrow> Inl [StringType field])"

fun errors_of :: "verror list + 'a \<Rightarrow> verror list" where
  "errors_of (Inl es) = es"
| "errors_of (Inr v) = []"

definition TranslateRequest_validate :: "json \<Rightarrow> verror list + TranslateRequest" where
  "TranslateRequest_validate body =
     (case body of
        JObj d \<Rightarrow>
          (let t = required_str (lit ''text'') (Some 1) d;
               s = optional_str (lit ''source'') (Some (lit ''auto'')) d;
               g = required_str (lit ''target'') None d
           in case (t, s, g) of
                (Inr tv, Inr sv, Inr gv) \<Rightarrow>
                  Inr \<lparr> req_text = tv, req_source = sv, req_target = gv \<rparr>
              | other \<Rightarrow> Inl (errors_of t @ errors_of s @ errors_of g))
      | JNull \<Rightarrow> Inl [Missing (lit ''body'')]
      | other \<Rightarrow> Inl [ModelType])"

text \<open>
  Each validation error is reported with the input it was raised on: the value of the
  field for an error about a string, the object the fields were looked up in for a missing
  field, the body itself for a body that is missing or not an object.
\<close>

fun error_input :: "json \<Rightarrow> verror \<Rightarrow> json" where
  "error_input body (Missing f) = body"
| "error_input body ModelType = body"
| "error_input (JObj d) (StringType f) = dict_get d f"
| "error_input (JObj d) (StringUnicode f) = dict_get d f"
| "error_input (JObj d) (StringTooShort f) = dict_get d f"
| "error_input body e = JNull"

text \<open>
  What the client receives.

  \<^item> \<open>Success v\<close>: the handler returned \<open>v\<close>, and the answer is status 200 with body \<open>v\<close>.
  \<^item> \<open>Failure sc d\<close>: the handler raised an \<open>HTTPException\<close> with status code \<open>sc\<close> and
    detail \<open>d\<close>, which is answered with status \<open>sc\<close> and the detail in the body. The
    detail is kept as the handler raised it; its encoding is not modelled. (The details
    this program raises with a status other than 500 are ASCII literals.)
  \<^item> \<open>Unprocessable errs\<close>: the model rejected the body, and the answer is status 422 with
    the list of errors, each with its input.
  \<^item> \<open>ServerError\<close>: an exception was left unhandled, and the answer is status 500.
\<close>

datatype reply =
    Success json
  | Failure int pystr
  | Unprocessable "verror list"
  | ServerError

fun status_of :: "reply \<Rightarrow> int" where
  "status_of (Success v) = 200"
| "status_of (Failure sc d) = sc"
| "status_of (Unprocessable es) = 422"
| "status_of ServerError = 500"

text \<open>
  The value a handler returns is encoded after the handler has returned, outside its
  \<open>try\<close> block: when the encoding raises, the exception is left unhandled.
\<close>

fun respond :: "exn + json \<Rightarrow> reply" where
  "respond (Inr v) = (if renderable v then Success v else ServerError)"
| "respond (Inl (HTTPException sc d)) = Failure sc d"
| "respond (Inl e) = ServerError"

text \<open>
  The answer to a body the model rejects: the list of errors is encoded with the inputs
  they echo, and when that encoding raises, the exception is left unhandled.
\<close>

definition validation_reply :: "json \<Rightarrow> verror list \<Rightarrow> reply" where
  "validation_reply body errs =
     (if list_all (\<lambda>e. renderable (error_input body e)) errs then Unprocessable errs
      else ServerError)"

text \<open>
  The route: the body is validated first, and the handler runs only on a body the model
  accepts. \<open>body\<close> is the value the JSON body of the request decodes to (a request whose
  body does not decode has none, and is not covered). The second component is the list of
  outbound calls made.
\<close>

definition post_translate ::
  "(int \<Rightarrow> pystr \<Rightarrow> pystr) \<Rightarrow> (post_call \<Rightarrow> post_outcome) \<Rightarrow> json
     \<Rightarrow> reply \<times> post_call list" where
  "post_translate hs post body =
     (case TranslateRequest_validate body of
        Inl errs \<Rightarrow> (validation_reply body errs, [])
      | Inr req \<Rightarrow> (case translate hs post req of (r, log) \<Rightarrow> (respond r, log)))"

section \<open>Concrete collaborators\<close>

text \<open>
  \<open>str\<close> of an integer, and \<open>HTTPException.__str__\<close> as current Starlette defines it:
  \<open>f"{self.status_code}: {self.detail}"\<close>.
\<close>

fun py_str_nat :: "nat \<Rightarrow> pystr" where
  "py_str_nat n = (if n < 10 then [48 + n] else py_str_nat (n div 10) @ [48 + n mod 10])"

declare py_str_nat.simps [simp del]

definition py_str_int :: "int \<Rightarrow> pystr" where
  "py_str_int i = (if i < 0 then 45 # py_str_nat (nat (- i)) else py_str_nat (nat i))"

definition starlette_str :: "int \<Rightarrow> pystr \<Rightarrow> pystr" where
  "starlette_str sc d = py_str_int sc @ lit '': '' @ d"

text \<open>The request \<open>{"text": "Hello", "target": "es"}\<close> and some requests with blank text.\<close>

definition body_hello :: json where
  "body_hello = JObj [(lit ''text'', JStr (lit ''Hello'')), (lit ''target'', JStr (lit ''es''))]"

definition body_empty :: json where
  "body_empty = JObj [(lit ''text'', JStr []), (lit ''target'', JStr (lit ''es''))]"

definition body_blank :: json where
  "body_blank = JObj [(lit ''text'', JStr (lit ''  '')), (lit ''target'', JStr (lit ''es''))]"

text \<open>
  Two bodies the model rejects with an error that echoes the lone surrogate U+D800: one
  with it as \<open>text\<close>, one with an empty \<open>text\<close> and the list holding it as \<open>target\<close>.
\<close>

definition body_surrogate :: json where
  "body_surrogate = JObj [(lit ''text'', JStr [0xD800]), (lit ''target'', JStr (lit ''es''))]"

definition body_empty_surrogate :: json where
  "body_empty_surrogate =
     JObj [(lit ''text'', JStr []), (lit ''target'', JArr [JStr [0xD800]])]"

text \<open>Providers: one per row of the response mapping.\<close>

definition decode_error :: pystr where
  "decode_error = lit ''Expecting value: line 1 column 1 (char 0)''"

definition provider_503 :: "post_call \<Rightarrow> post_outcome" where
  "provider_503 c =
     Responded \<lparr> status_code = 503, resp_text = lit ''Service Unavailable'',
                 resp_json = JsonRaises decode_error \<rparr>"

definition provider_html :: "post_call \<Rightarrow> post_outcome" where
  "provider_html c =
     Responded \<lparr> status_code = 200, resp_text = lit ''<html></html>'',
                 resp_json = JsonRaises decode_error \<rparr>"

definition provider_list :: "post_call \<Rightarrow> post_outcome" where
  "provider_list c =
     Responded \<lparr> status_code = 200, resp_text = lit ''[]'', resp_json = JsonValue (JArr []) \<rparr>"

definition provider_no_field :: "post_call \<Rightarrow> post_outcome" where
  "provider_no_field c =
     Responded \<lparr> status_code = 200, resp_text = lit ''{}'', resp_json = JsonValue (JObj []) \<rparr>"

definition provider_hola :: "post_call \<Rightarrow> post_outcome" where
  "provider_hola c =
     Responded \<lparr> status_code = 200, resp_text = lit ''{\"translatedText\": \"Hola\"}'',
                 resp_json = JsonValue (JObj [(lit ''translatedText'', JStr (lit ''Hola''))]) \<rparr>"

text \<open>
  A provider whose \<open>translatedText\<close> is the one-character string holding the lone
  surrogate U+D800, written in the body as an escape (34 is the quotation mark, 92 the
  backslash).
\<close>

definition provider_surrogate :: "post_call \<Rightarrow> post_outcome" where
  "provider_surrogate c =
     Responded \<lparr> status_code = 200,
                 resp_text = lit ''{'' @ [34] @ lit ''translatedText'' @ [34] @ lit '': ''
                             @ [34, 92] @ lit ''ud800'' @ [34] @ lit ''}'',
                 resp_json = JsonValue (JObj [(lit ''translatedText'', JStr [0xD800])]) \<rparr>"



text \<open>The requests the two bodies above validate to.\<close>

definition req_hello :: TranslateRequest where
  "req_hello = \<lparr> req_text = lit ''Hello'', req_source = Some (lit ''auto''), req_target = lit ''es'' \<rparr>"

definition req_blank :: TranslateRequest where
  "req_blank = \<lparr> req_text = lit ''  '', req_source = Some (lit ''auto''), req_target = lit ''es'' \<rparr>"

text \<open>Whether a decoded value is a \<open>dict\<close>, the only decoded value with a \<open>get\<close> method.\<close>

fun is_dict :: "json \<Rightarrow> bool" where
  "is_dict (JObj d) = True"
| "is_dict v = False"

section \<open>GET /themes\<close>

text \<open>
  A stored document is a \<open>dict\<close> from field names to values; a value is a string or some
  other object (an \<open>ObjectId\<close>, say), on which \<open>str\<close> is the parameter \<open>str_obj\<close>.
  The document is kept as its item list: \<open>d[k] = v\<close> replaces the value in place or
  appends the item, \<open>del d[k]\<close> removes it.
\<close>

datatype 'o pyval = Str pystr | Obj 'o

fun py_str :: "('o \<Rightarrow> pystr) \<Rightarrow> 'o pyval \<Rightarrow> pystr" where
  "py_str str_obj (Str s) = s"
| "py_str str_obj (Obj x) = str_obj x"

type_synonym 'o doc = "(pystr \<times> 'o pyval) list"

text \<open>The body of the loop over the documents.\<close>

definition rekey :: "('o \<Rightarrow> pystr) \<Rightarrow> 'o doc \<Rightarrow> 'o doc" where
  "rekey str_obj d =
     (case map_of d (lit ''_id'') of
        None \<Rightarrow> d
      | Some v \<Rightarrow>
          AList.delete (lit ''_id'') (AList.update (lit ''id'') (Str (py_str str_obj v)) d))"

text \<open>
  The handler. \<open>get_documents\<close> belongs to the storage module: it returns the documents or
  raises, \<open>Inl m\<close> standing for an exception \<open>e\<close> with \<open>str(e) = m\<close>. The value returned
  is the \<open>dict\<close> with the one key \<open>items\<close>.
\<close>

definition list_themes ::
  "('o \<Rightarrow> pystr) \<Rightarrow> (pystr \<Rightarrow> int option \<Rightarrow> pystr + 'o doc list) \<Rightarrow> int option
     \<Rightarrow> exn + (pystr \<times> 'o doc list) list" where
  "list_themes str_obj get_documents limit =
     (case get_documents (lit ''theme'') limit of
        Inl m \<Rightarrow> Inl (HTTPException 500 m)
      | Inr docs \<Rightarrow> Inr [(lit ''items'', map (rekey str_obj) docs)])"

text \<open>The route: the query parameter \<open>limit\<close> defaults to 50.\<close>

definition get_themes ::
  "('o \<Rightarrow> pystr) \<Rightarrow> (pystr \<Rightarrow> int option \<Rightarrow> pystr + 'o doc list) \<Rightarrow> int option
     \<Rightarrow> exn + (pystr \<times> 'o doc list) list" where
  "get_themes str_obj get_documents q =
     list_themes str_obj get_documents (case q of None \<Rightarrow> Some 50 | Some n \<Rightarrow> Some n)"

text \<open>A store with one theme, and a store that fails; object ids are kept as their hex text.\<close>

definition doc_dark :: "pystr doc" where
  "doc_dark = [(lit ''_id'', Obj (lit ''65a1b2c3d4e5f60718293a4b'')), (lit ''name'', Str (lit ''dark''))]"

definition store_one :: "pystr \<Rightarrow> int option \<Rightarrow> pystr + pystr doc list" where
  "store_one coll limit = Inr [doc_dark]"

definition store_down :: "pystr \<Rightarrow> int option \<Rightarrow> pystr + pystr doc list" where
  "store_down coll limit = Inl (lit ''Database not available'')"

section \<open>GET /test\<close>

text \<open>
  The database handle of the storage module, as far as the handler looks at it: whether it
  has a \<open>name\<close> attribute (reading it may also raise), and what
  \<open>list_collection_names()\<close> does (\<open>Inl m\<close>: it raises, with message \<open>m\<close>).
\<close>

datatype name_attr = NoName | Name pystr | NameRaises pystr

record db_handle =
  db_name :: name_attr
  list_collection_names :: "pystr + pystr list"

record test_response =
  backend :: pystr
  database :: pystr
  database_url :: "pystr option"
  database_name :: "pystr option"
  connection_status :: pystr
  collections :: "pystr list"

text \<open>
  The literals with a symbol in front: U+2705 (check mark), U+274C (cross) and
  U+26A0 U+FE0F (warning sign), the last one followed by two spaces in the source.
\<close>

definition check_mark :: "string \<Rightarrow> pystr" where
  "check_mark s = [0x2705] @ lit '' '' @ lit s"

definition cross_mark :: "string \<Rightarrow> pystr" where
  "cross_mark s = [0x274C] @ lit '' '' @ lit s"

definition warning_sign :: "string \<Rightarrow> pystr" where
  "warning_sign s = [0x26A0, 0xFE0F] @ lit ''  '' @ lit s"

text \<open>Truth value of what \<open>os.getenv\<close> returns: \<open>None\<close> and the empty string are false.\<close>

definition env_truthy :: "pystr option \<Rightarrow> bool" where
  "env_truthy v = (case v of None \<Rightarrow> False | Some s \<Rightarrow> s \<noteq> [])"

text \<open>
  The \<open>try\<close> block of the handler, as a function on the response under construction: the
  assignments in the order of the source, the inner \<open>except\<close> and the outer one.
\<close>

definition probe_database :: "db_handle option \<Rightarrow> test_response \<Rightarrow> test_response" where
  "probe_database db response =
     (case db of
        Some h \<Rightarrow>
          (let r1 = response \<lparr> database := check_mark ''Available'' \<rparr>;
               r2 = r1 \<lparr> database_url := Some (check_mark ''Configured'') \<rparr>
           in case db_name h of
                NameRaises m \<Rightarrow> r2 \<lparr> database := cross_mark ''Error: '' @ take 50 m \<rparr>
              | n \<Rightarrow>
                  (let r3 = r2 \<lparr> database_name :=
                                    Some (case n of Name s \<Rightarrow> s | other \<Rightarrow> check_mark ''Connected'') \<rparr>;
                       r4 = r3 \<lparr> connection_status := lit ''Connected'' \<rparr>
                   in case list_collection_names h of
                        Inr cs \<Rightarrow>
                          r4 \<lparr> collections := take 10 cs,
                               database := check_mark ''Connected & Working'' \<rparr>
                      | Inl m \<Rightarrow>
                          r4 \<lparr> database := warning_sign ''Connected but Error: '' @ take 50 m \<rparr>))
      | None \<Rightarrow> response \<lparr> database := warning_sign ''Available but not initialized'' \<rparr>)"

definition test_database :: "db_handle option \<Rightarrow> (pystr \<Rightarrow> pystr option) \<Rightarrow> test_response" where
  "test_database db getenv =
     (let response = \<lparr> backend = check_mark ''Running'',
                        database = cross_mark ''Not Available'',
                        database_url = None,
                        database_name = None,
                        connection_status = lit ''Not Connected'',
                        collections = [] \<rparr>;
          response = probe_database db response;
          response = response \<lparr> database_url :=
                        Some (if env_truthy (getenv (lit ''DATABASE_URL''))
                              then check_mark ''Set'' else cross_mark ''Not Set'') \<rparr>;
          response = response \<lparr> database_name :=
                        Some (if env_truthy (getenv (lit ''DATABASE_NAME''))
                              then check_mark ''Set'' else cross_mark ''Not Set'') \<rparr>
      in response)"

text \<open>Environments and handles to run the handler on.\<close>

definition env_unset :: "pystr \<Rightarrow> pystr option" where
  "env_unset k = None"

definition env_url_empty :: "pystr \<Rightarrow> pystr option" where
  "env_url_empty k = (if k = lit ''DATABASE_URL'' then Some [] else None)"

definition env_both :: "pystr \<Rightarrow> pystr option" where
  "env_both k =
     (if k = lit ''DATABASE_URL'' then Some (lit ''mongodb://localhost:27017'')
      else if k = lit ''DATABASE_NAME'' then Some (lit ''themes'')
      else None)"

definition db_working :: db_handle where
  "db_working = \<lparr> db_name = Name (lit ''themes''), list_collection_names = Inr [lit ''theme''] \<rparr>"

section \<open>Facts about the request model and the handler\<close>

lemma py_strip_Nil_iff: "py_strip s = [] \<longleftrightarrow> list_all py_isspace s"
proof
  assume "py_strip s = []"
  then have all: "\<forall>x\<in>set (dropWhile py_isspace s). py_isspace x"
    by (simp add: py_strip_def dropWhile_eq_Nil_conv)
  have "dropWhile py_isspace s = []"
  proof (rule ccontr)
    assume ne: "dropWhile py_isspace s \<noteq> []"
    then have "\<not> py_isspace (hd (dropWhile py_isspace s))" by (rule hd_dropWhile)
    moreover from ne have "hd (dropWhile py_isspace s) \<in> set (dropWhile py_isspace s)" by simp
    ultimately show False using all by blast
  qed
  then show "list_all py_isspace s"
    by (simp add: dropWhile_eq_Nil_conv list_all_iff)
next
  assume "list_all py_isspace s"
  then have d: "dropWhile py_isspace s = []"
    by (simp add: dropWhile_eq_Nil_conv list_all_iff)
  show "py_strip s = []" unfolding py_strip_def d by simp
qed

lemma validate_text_nonempty:
  "TranslateRequest_validate body = Inr req \<Longrightarrow> req_text req \<noteq> []"
  by (auto simp: TranslateRequest_validate_def required_str_def Let_def
           split: json.splits option.splits sum.splits if_splits)

lemma validate_text_encodable:
  "TranslateRequest_validate body = Inr req \<Longrightarrow> utf8_encodable (req_text req)"
  by (auto simp: TranslateRequest_validate_def required_str_def Let_def
           split: json.splits option.splits sum.splits if_splits)

lemma validate_fields:
  assumes "TranslateRequest_validate (JObj d) = Inr req"
  shows "map_of d (lit ''text'') = Some (JStr (req_text req))"
    and "map_of d (lit ''target'') = Some (JStr (req_target req))"
    and "req_source req = (case map_of d (lit ''source'') of
                             None \<Rightarrow> Some (lit ''auto'') | Some (JStr s) \<Rightarrow> Some s | Some v \<Rightarrow> None)"
  using assms
  by (auto simp: TranslateRequest_validate_def required_str_def optional_str_def Let_def
           split: json.splits option.splits sum.splits if_splits)

lemma validate_empty_text:
  "map_of d (lit ''text'') = Some (JStr []) \<Longrightarrow>
     \<exists>errs. TranslateRequest_validate (JObj d) = Inl (StringTooShort (lit ''text'') # errs)"
  by (auto simp: TranslateRequest_validate_def required_str_def utf8_encodable_def Let_def
           split: json.splits option.splits sum.splits if_splits)




lemma validation_reply_cases:
  "validation_reply body errs = Unprocessable errs \<or> validation_reply body errs = ServerError"
  by (simp add: validation_reply_def)

lemma post_translate_rejected:
  "TranslateRequest_validate body = Inl errs \<Longrightarrow>
     post_translate hs post body = (validation_reply body errs, [])"
  by (simp add: post_translate_def)

lemmas validate_defs =
  TranslateRequest_validate_def required_str_def optional_str_def utf8_encodable_def
  is_surrogate_def dict_get_def lit_def Let_def

lemma rejected_empty_text:
  "post_translate starlette_str provider_hola body_empty
     = (Unprocessable [StringTooShort (lit ''text'')], [])"
  by (simp add: post_translate_def validation_reply_def body_empty_def validate_defs)

lemma rejected_surrogate_text:
  "TranslateRequest_validate body_surrogate = Inl [StringUnicode (lit ''text'')]
   \<and> post_translate starlette_str provider_hola body_surrogate = (ServerError, [])"
  by (simp add: post_translate_def validation_reply_def body_surrogate_def validate_defs)

lemma rejected_empty_text_surrogate_target:
  "TranslateRequest_validate body_empty_surrogate
     = Inl [StringTooShort (lit ''text''), StringType (lit ''target'')]
   \<and> post_translate starlette_str provider_hola body_empty_surrogate = (ServerError, [])"
  by (simp add: post_translate_def validation_reply_def body_empty_surrogate_def validate_defs)

text \<open>Every path through the \<open>try\<close> block makes the one call, whatever comes of it.\<close>

lemma translate_try_log: "snd (translate_try post req log) = log @ [translate_call req]"
  by (simp add: translate_try_def Let_def split: post_outcome.splits json_outcome.splits json.splits)

lemma translate_accepted:
  "py_strip (req_text req) \<noteq> [] \<Longrightarrow>
   translate hs post req =
     (case fst (translate_try post req []) of
        Inr v \<Rightarrow> Inr v
      | Inl e \<Rightarrow> if is_Timeout e then Inl (HTTPException 504 (lit ''Translation service timeout''))
                 else Inl (HTTPException 500 (exn_str hs e)),
      [translate_call req])"
  using translate_try_log [of post req "[]"]
  by (cases "translate_try post req []") (auto simp: translate_def split: sum.splits)

lemma post_translate_valid:
  "TranslateRequest_validate body = Inr req \<Longrightarrow>
   post_translate hs post body = (respond (fst (translate hs post req)), snd (translate hs post req))"
  by (simp add: post_translate_def split: prod.splits)

text \<open>
  The two \<open>HTTPException\<close>s with status 502 are raised inside the \<open>try\<close> block, and
  \<open>HTTPException\<close> is a subclass of \<open>Exception\<close>: the clause \<open>except Exception\<close> catches
  them, and the handler raises status 500 with \<open>str\<close> of the caught exception as detail.
\<close>

lemma non_200_is_caught:
  assumes "py_strip (req_text req) \<noteq> []"
    and "post (translate_call req) = Responded resp" and "status_code resp \<noteq> 200"
  shows "fst (translate hs post req) =
           Inl (HTTPException 500
                 (hs 502 (lit ''Translation service error: '' @ take 200 (resp_text resp))))"
  using assms by (simp add: translate_accepted translate_try_def Let_def)

lemma missing_field_is_caught:
  assumes "py_strip (req_text req) \<noteq> []"
    and "post (translate_call req) = Responded resp" and "status_code resp = 200"
    and "resp_json resp = JsonValue (JObj d)" and "\<not> py_truthy (dict_get d (lit ''translatedText''))"
  shows "fst (translate hs post req) =
           Inl (HTTPException 500 (hs 502 (lit ''Invalid response from translation service'')))"
  using assms by (simp add: translate_accepted translate_try_def Let_def)


lemma hello_valid: "TranslateRequest_validate body_hello = Inr req_hello"
  by (simp add: body_hello_def req_hello_def validate_defs)

lemma hello_strip: "py_strip (req_text req_hello) \<noteq> []"
  by code_simp

lemma blank_valid: "TranslateRequest_validate body_blank = Inr req_blank"
  by (simp add: body_blank_def req_blank_def validate_defs)

lemma blank_isspace: "list_all py_isspace (req_text req_blank)"
  by code_simp

lemma empty_text_field:
  "map_of [(lit ''text'', JStr []), (lit ''target'', JStr (lit ''es''))] (lit ''text'') = Some (JStr [])"
  by code_simp

section \<open>POST /translate: the response mapping\<close>

text \<open>
  C1. The claim: when the provider answers with a status other than 200, the request
  fails with status 502 and the first 200 characters of the provider's body in the detail.
  The handler raises that \<open>HTTPException\<close> inside its \<open>try\<close> block, where
  \<open>except Exception\<close> catches it (see \<open>non_200_is_caught\<close>). Run on the request
  \<open>{"text": "Hello", "target": "es"}\<close> against a provider answering 503 with body
  \<open>Service Unavailable\<close>, the route answers 500; the 502 survives only as text inside
  the detail.
\<close>

theorem translate_non_200_answers_500:
  "fst (post_translate starlette_str provider_503 body_hello)
     = Failure 500 (lit ''502: Translation service error: Service Unavailable'')"
proof -
  have p: "provider_503 (translate_call req_hello)
             = Responded \<lparr> status_code = 503, resp_text = lit ''Service Unavailable'',
                             resp_json = JsonRaises decode_error \<rparr>"
    by (simp add: provider_503_def)
  have d: "starlette_str 502 (lit ''Translation service error: '' @ take 200 (lit ''Service Unavailable''))
             = lit ''502: Translation service error: Service Unavailable''"
    by code_simp
  from non_200_is_caught [where hs = starlette_str and post = provider_503, OF hello_strip p] d
  show ?thesis by (simp add: post_translate_valid [OF hello_valid])
qed

text \<open>
  C2, as stated: a provider answer with status 200 whose body does not decode makes the
  request fail with status 502. It does not: \<open>resp.json()\<close> raises, no clause of the
  handler is specific to that, and \<open>except Exception\<close> turns it into status 500 with the
  decoder's message as detail.
\<close>

theorem translate_undecodable_200_not_502:
  "fst (post_translate starlette_str provider_html body_hello) = Failure 500 decode_error
   \<and> status_of (fst (post_translate starlette_str provider_html body_hello)) \<noteq> 502"
proof -
  have "fst (translate starlette_str provider_html req_hello)
          = Inl (HTTPException 500 decode_error)"
    by (simp add: translate_accepted [OF hello_strip] translate_try_def provider_html_def Let_def)
  then show ?thesis by (simp add: post_translate_valid [OF hello_valid])
qed

text \<open>
  C2, amended. For an accepted request to which the provider answers with status 200:
  if \<open>resp.json()\<close> raises, the request fails with status 500 and the message of that
  exception as detail; if it returns a value that is not an object, the request fails with
  status 500 and the message of the \<open>AttributeError\<close> for \<open>get\<close> as detail. (Nothing
  is said here about an object without a usable \<open>translatedText\<close>.)
\<close>

theorem translate_undecodable_200_answers_500:
  assumes "TranslateRequest_validate body = Inr req" and "py_strip (req_text req) \<noteq> []"
    and "post (translate_call req) = Responded resp" and "status_code resp = 200"
  shows "(resp_json resp = JsonRaises m \<longrightarrow>
            fst (post_translate hs post body) = Failure 500 m)
       \<and> (resp_json resp = JsonValue v \<and> \<not> is_dict v \<longrightarrow>
            fst (post_translate hs post body)
              = Failure 500 (no_attribute (py_type_name v) (lit ''get'')))"
  using assms
  by (cases v) (simp_all add: post_translate_valid translate_accepted translate_try_def Let_def)

theorem translate_undecodable_200_answers_500_witness:
  "fst (post_translate starlette_str provider_html body_hello) = Failure 500 decode_error
   \<and> fst (post_translate starlette_str provider_list body_hello)
       = Failure 500 ([39] @ lit ''list'' @ [39] @ lit '' object has no attribute ''
                      @ [39] @ lit ''get'' @ [39])"
proof -
  let ?r1 = "\<lparr> status_code = 200, resp_text = lit ''<html></html>'',
                 resp_json = JsonRaises decode_error \<rparr>"
  let ?r2 = "\<lparr> status_code = 200, resp_text = lit ''[]'', resp_json = JsonValue (JArr []) \<rparr>"
  have p1: "provider_html (translate_call req_hello) = Responded ?r1"
    by (simp add: provider_html_def)
  have p2: "provider_list (translate_call req_hello) = Responded ?r2"
    by (simp add: provider_list_def)
  have s1: "status_code ?r1 = 200" and s2: "status_code ?r2 = 200" by simp_all
  have a: "fst (post_translate starlette_str provider_html body_hello) = Failure 500 decode_error"
    using translate_undecodable_200_answers_500
            [where post = provider_html and hs = starlette_str and m = decode_error,
             OF hello_valid hello_strip p1 s1] by simp
  have b: "fst (post_translate starlette_str provider_list body_hello)
             = Failure 500 (no_attribute (py_type_name (JArr [])) (lit ''get''))"
    using translate_undecodable_200_answers_500
            [where post = provider_list and hs = starlette_str and v = "JArr []",
             OF hello_valid hello_strip p2 s2] by simp
  from a b show ?thesis by (simp add: no_attribute_def)
qed






text \<open>
  C5, as stated: whenever the provider answers with status 200 and an object whose
  \<open>translatedText\<close> is a non-empty string, the route answers 200 with that string. Let
  the string be the lone surrogate U+D800: the handler returns \<open>{"translated": s}\<close>, the
  encoding of the returned value as UTF-8 raises, and the route answers 500.
\<close>

theorem translate_unencodable_text_answers_500:
  "TranslateRequest_validate body_hello = Inr req_hello
   \<and> fst (translate starlette_str provider_surrogate req_hello)
       = Inr (JObj [(lit ''translated'', JStr [0xD800])])
   \<and> fst (post_translate starlette_str provider_surrogate body_hello) = ServerError
   \<and> status_of (fst (post_translate starlette_str provider_surrogate body_hello)) \<noteq> 200"
proof -
  have h: "fst (translate starlette_str provider_surrogate req_hello)
             = Inr (JObj [(lit ''translated'', JStr [0xD800])])"
    by (simp add: translate_accepted [OF hello_strip] translate_try_def provider_surrogate_def
          Let_def dict_get_def)
  have "\<not> renderable (JObj [(lit ''translated'', JStr [0xD800])])"
    by (simp add: utf8_encodable_def is_surrogate_def)
  with h show ?thesis by (simp add: hello_valid post_translate_valid [OF hello_valid])
qed

text \<open>
  C5, amended. For an accepted request, when the provider answers with status 200 and an
  object whose \<open>translatedText\<close> is a non-empty string \<open>s\<close>, the handler returns
  \<open>{"translated": s}\<close>. If \<open>s\<close> holds no surrogate code point, the route answers 200
  with that body; otherwise it answers 500.
\<close>

theorem translate_success:
  assumes "TranslateRequest_validate body = Inr req" and "py_strip (req_text req) \<noteq> []"
    and "post (translate_call req) = Responded resp" and "status_code resp = 200"
    and "resp_json resp = JsonValue (JObj d)"
    and "map_of d (lit ''translatedText'') = Some (JStr s)" and "s \<noteq> []"
  shows "fst (translate hs post req) = Inr (JObj [(lit ''translated'', JStr s)])
         \<and> fst (post_translate hs post body)
               = (if utf8_encodable s then Success (JObj [(lit ''translated'', JStr s)])
                  else ServerError)
         \<and> status_of (fst (post_translate hs post body)) = (if utf8_encodable s then 200 else 500)"
proof -
  have h: "fst (translate hs post req) = Inr (JObj [(lit ''translated'', JStr s)])"
    using assms by (simp add: translate_accepted translate_try_def Let_def dict_get_def)
  have k: "utf8_encodable (lit ''translated'')"
    by (simp add: utf8_encodable_def is_surrogate_def lit_def)
  have "fst (post_translate hs post body)
          = (if utf8_encodable s then Success (JObj [(lit ''translated'', JStr s)])
             else ServerError)"
    using assms(1) h k by (simp add: post_translate_valid)
  with h show ?thesis by simp
qed

theorem translate_success_witness:
  "fst (post_translate starlette_str provider_hola body_hello)
     = Success (JObj [(lit ''translated'', JStr (lit ''Hola''))])
   \<and> status_of (fst (post_translate starlette_str provider_hola body_hello)) = 200"
proof -
  let ?d = "[(lit ''translatedText'', JStr (lit ''Hola''))]"
  let ?r = "\<lparr> status_code = 200, resp_text = lit ''{\"translatedText\": \"Hola\"}'',
                resp_json = JsonValue (JObj ?d) \<rparr>"
  have p: "provider_hola (translate_call req_hello) = Responded ?r"
    by (simp add: provider_hola_def)
  have s: "status_code ?r = 200" and j: "resp_json ?r = JsonValue (JObj ?d)" by simp_all
  have m: "map_of ?d (lit ''translatedText'') = Some (JStr (lit ''Hola''))" by simp
  have n: "lit ''Hola'' \<noteq> []" by (simp add: lit_def)
  have u: "utf8_encodable (lit ''Hola'')"
    by (simp add: utf8_encodable_def is_surrogate_def lit_def)
  from translate_success
         [where post = provider_hola and hs = starlette_str, OF hello_valid hello_strip p s j m n] u
  show ?thesis by simp
qed

text \<open>
  C6. For an accepted request, exactly one outbound call is made. Its form fields are
  \<open>q\<close>, the \<open>text\<close> of the request body as it came (not stripped); \<open>source\<close>, the
  \<open>source\<close> of the body, or \<open>auto\<close> when the body has none, a \<open>null\<close> one or an
  empty one; \<open>target\<close>, the \<open>target\<close> of the body; and \<open>format\<close>, the literal \<open>text\<close>.
\<close>

theorem translate_single_call:
  assumes "TranslateRequest_validate (JObj d) = Inr req" and "py_strip (req_text req) \<noteq> []"
  shows "\<exists>src. snd (post_translate hs post (JObj d))
             = [\<lparr> url = lit ''https://libretranslate.de/translate'',
                   data = [(lit ''q'', req_text req), (lit ''source'', src),
                           (lit ''target'', req_target req), (lit ''format'', lit ''text'')],
                   timeout = 15 \<rparr>]
          \<and> map_of d (lit ''text'') = Some (JStr (req_text req))
          \<and> map_of d (lit ''target'') = Some (JStr (req_target req))
          \<and> src = (case map_of d (lit ''source'') of
                      Some (JStr s) \<Rightarrow> if s = [] then lit ''auto'' else s
                    | other \<Rightarrow> lit ''auto'')"
proof -
  have "snd (post_translate hs post (JObj d)) = [translate_call req]"
    using assms by (simp add: post_translate_valid translate_accepted)
  moreover have "source_or_auto (req_source req)
      = (case map_of d (lit ''source'') of
           Some (JStr s) \<Rightarrow> if s = [] then lit ''auto'' else s
         | other \<Rightarrow> lit ''auto'')"
    using validate_fields(3) [OF assms(1)]
    by (auto simp: source_or_auto_def lit_def split: option.splits json.splits)
  ultimately show ?thesis
    using validate_fields(1,2) [OF assms(1)] by (simp add: translate_call_def)
qed

theorem translate_single_call_witness:
  "snd (post_translate starlette_str provider_hola body_hello)
     = [\<lparr> url = lit ''https://libretranslate.de/translate'',
           data = [(lit ''q'', lit ''Hello''), (lit ''source'', lit ''auto''),
                   (lit ''target'', lit ''es''), (lit ''format'', lit ''text'')],
           timeout = 15 \<rparr>]"
proof -
  have v: "TranslateRequest_validate
             (JObj [(lit ''text'', JStr (lit ''Hello'')), (lit ''target'', JStr (lit ''es''))])
           = Inr req_hello"
    using hello_valid by (simp add: body_hello_def)
  from translate_single_call [where hs = starlette_str and post = provider_hola, OF v hello_strip]
  show ?thesis by (auto simp: body_hello_def req_hello_def lit_def)
qed



text \<open>
  C10. A request whose \<open>text\<close> is the empty string is rejected by the request model
  (\<open>text\<close> is too short), and the handler does not run: no outbound call is made, and
  the answer is that of a rejected body, status 422 or 500. So whenever the route answers
  400, the request was accepted by the model and its \<open>text\<close> is non-empty and all
  whitespace; the detail is then \<open>Text cannot be empty\<close>.
\<close>

theorem translate_400_only_for_whitespace:
  "(map_of d (lit ''text'') = Some (JStr []) \<longrightarrow>
      (\<exists>errs. TranslateRequest_validate (JObj d) = Inl (StringTooShort (lit ''text'') # errs))
      \<and> snd (post_translate hs post (JObj d)) = []
      \<and> (status_of (fst (post_translate hs post (JObj d))) = 422
           \<or> status_of (fst (post_translate hs post (JObj d))) = 500))
   \<and> (status_of (fst (post_translate hs post body)) = 400 \<longrightarrow>
        (\<exists>req. TranslateRequest_validate body = Inr req
              \<and> req_text req \<noteq> [] \<and> list_all py_isspace (req_text req)
              \<and> fst (post_translate hs post body) = Failure 400 (lit ''Text cannot be empty'')))"
proof (intro conjI impI)
  assume t: "map_of d (lit ''text'') = Some (JStr [])"
  then show "\<exists>errs. TranslateRequest_validate (JObj d) = Inl (StringTooShort (lit ''text'') # errs)"
    by (rule validate_empty_text)
  from t obtain errs where "TranslateRequest_validate (JObj d) = Inl errs"
    using validate_empty_text by blast
  then have p: "post_translate hs post (JObj d) = (validation_reply (JObj d) errs, [])"
    by (rule post_translate_rejected)
  show "snd (post_translate hs post (JObj d)) = []" unfolding p by simp
  from validation_reply_cases [of "JObj d" errs]
  show "status_of (fst (post_translate hs post (JObj d))) = 422
        \<or> status_of (fst (post_translate hs post (JObj d))) = 500"
    unfolding p by auto
next
  assume s: "status_of (fst (post_translate hs post body)) = 400"
  show "\<exists>req. TranslateRequest_validate body = Inr req
              \<and> req_text req \<noteq> [] \<and> list_all py_isspace (req_text req)
              \<and> fst (post_translate hs post body) = Failure 400 (lit ''Text cannot be empty'')"
  proof (cases "TranslateRequest_validate body")
    case (Inl errs)
    then have "post_translate hs post body = (validation_reply body errs, [])"
      by (rule post_translate_rejected)
    with s validation_reply_cases [of body errs] show ?thesis by auto
  next
    case (Inr req)
    have blank: "py_strip (req_text req) = []"
    proof (rule ccontr)
      assume n: "py_strip (req_text req) \<noteq> []"
      show False
      proof (cases "fst (translate_try post req [])")
        case (Inl e)
        with s Inr n show False
          by (simp add: post_translate_valid translate_accepted split: if_splits)
      next
        case (Inr v)
        with s \<open>TranslateRequest_validate body = Inr req\<close> n show False
          by (simp add: post_translate_valid translate_accepted split: if_splits)
      qed
    qed
    with Inr show ?thesis
      by (simp add: post_translate_valid translate_def validate_text_nonempty py_strip_Nil_iff)
  qed
qed

theorem translate_400_only_for_whitespace_witness:
  "snd (post_translate starlette_str provider_hola body_empty) = []
   \<and> status_of (fst (post_translate starlette_str provider_hola body_empty)) = 422
   \<and> fst (post_translate starlette_str provider_hola body_blank)
       = Failure 400 (lit ''Text cannot be empty'')"
proof -
  have "py_strip (req_text req_blank) = []"
    using blank_isspace by (simp add: py_strip_Nil_iff)
  then have s: "status_of (fst (post_translate starlette_str provider_hola body_blank)) = 400"
    by (simp add: post_translate_valid [OF blank_valid] translate_def)
  have n: "status_of (fst (post_translate starlette_str provider_hola body_empty)) \<noteq> 500"
    by (simp add: rejected_empty_text)
  from translate_400_only_for_whitespace
         [where hs = starlette_str and post = provider_hola and body = body_blank
            and d = "[(lit ''text'', JStr []), (lit ''target'', JStr (lit ''es''))]"]
       empty_text_field s n
  show ?thesis by (auto simp: body_empty_def)
qed

section \<open>GET /themes: re-keying the identifier\<close>

lemma map_of_rekey:
  assumes "map_of d (lit ''_id'') = Some v"
  shows "map_of (rekey so d) k =
           (if k = lit ''_id'' then None
            else if k = lit ''id'' then Some (Str (py_str so v))
            else map_of d k)"
  using assms by (simp add: rekey_def delete_conv update_conv)

lemma id_keys_distinct: "lit ''id'' \<noteq> lit ''_id''"
  by (simp add: lit_def)

text \<open>
  C8. When the store returns documents, the handler returns \<open>{"items": ...}\<close> with
  one document per stored document, in the same order. A document that had an \<open>_id\<close>
  has lost it and holds under \<open>id\<close> the string form of the value that was under \<open>_id\<close>,
  all its other fields unchanged; a document without \<open>_id\<close> is unchanged. When the
  store raises, the request fails with status 500 and the message of the exception.
\<close>

theorem list_themes_rekeys:
  "(get_documents (lit ''theme'') limit = Inr docs \<longrightarrow>
      (\<exists>items. list_themes so get_documents limit = Inr [(lit ''items'', items)]
         \<and> length items = length docs
         \<and> (\<forall>i<length docs.
               case map_of (docs ! i) (lit ''_id'') of
                 None \<Rightarrow> items ! i = docs ! i
               | Some v \<Rightarrow>
                   map_of (items ! i) (lit ''_id'') = None
                   \<and> map_of (items ! i) (lit ''id'') = Some (Str (py_str so v))
                   \<and> (\<forall>k. k \<noteq> lit ''_id'' \<and> k \<noteq> lit ''id'' \<longrightarrow>
                           map_of (items ! i) k = map_of (docs ! i) k))))
   \<and> (get_documents (lit ''theme'') limit = Inl m \<longrightarrow>
        list_themes so get_documents limit = Inl (HTTPException 500 m))"
proof (intro conjI impI)
  assume g: "get_documents (lit ''theme'') limit = Inr docs"
  have "\<forall>i<length docs.
               case map_of (docs ! i) (lit ''_id'') of
                 None \<Rightarrow> map (rekey so) docs ! i = docs ! i
               | Some v \<Rightarrow>
                   map_of (map (rekey so) docs ! i) (lit ''_id'') = None
                   \<and> map_of (map (rekey so) docs ! i) (lit ''id'') = Some (Str (py_str so v))
                   \<and> (\<forall>k. k \<noteq> lit ''_id'' \<and> k \<noteq> lit ''id'' \<longrightarrow>
                           map_of (map (rekey so) docs ! i) k = map_of (docs ! i) k)"
  proof (intro allI impI)
    fix i assume i: "i < length docs"
    show "case map_of (docs ! i) (lit ''_id'') of
                 None \<Rightarrow> map (rekey so) docs ! i = docs ! i
               | Some v \<Rightarrow>
                   map_of (map (rekey so) docs ! i) (lit ''_id'') = None
                   \<and> map_of (map (rekey so) docs ! i) (lit ''id'') = Some (Str (py_str so v))
                   \<and> (\<forall>k. k \<noteq> lit ''_id'' \<and> k \<noteq> lit ''id'' \<longrightarrow>
                           map_of (map (rekey so) docs ! i) k = map_of (docs ! i) k)"
    proof (cases "map_of (docs ! i) (lit ''_id'')")
      case None
      with i show ?thesis by (simp add: rekey_def)
    next
      case (Some v)
      with i show ?thesis using id_keys_distinct by (simp add: map_of_rekey)
    qed
  qed
  with g show "\<exists>items. list_themes so get_documents limit = Inr [(lit ''items'', items)]
         \<and> length items = length docs
         \<and> (\<forall>i<length docs.
               case map_of (docs ! i) (lit ''_id'') of
                 None \<Rightarrow> items ! i = docs ! i
               | Some v \<Rightarrow>
                   map_of (items ! i) (lit ''_id'') = None
                   \<and> map_of (items ! i) (lit ''id'') = Some (Str (py_str so v))
                   \<and> (\<forall>k. k \<noteq> lit ''_id'' \<and> k \<noteq> lit ''id'' \<longrightarrow>
                           map_of (items ! i) k = map_of (docs ! i) k))"
    by (simp add: list_themes_def)
next
  assume "get_documents (lit ''theme'') limit = Inl m"
  then show "list_themes so get_documents limit = Inl (HTTPException 500 m)"
    by (simp add: list_themes_def)
qed

theorem list_themes_rekeys_witness:
  "(\<exists>items. list_themes id store_one (Some 50) = Inr [(lit ''items'', items)]
      \<and> length items = 1
      \<and> map_of (items ! 0) (lit ''_id'') = None
      \<and> map_of (items ! 0) (lit ''id'') = Some (Str (lit ''65a1b2c3d4e5f60718293a4b''))
      \<and> map_of (items ! 0) (lit ''name'') = Some (Str (lit ''dark'')))
   \<and> list_themes id store_down (Some 50) = Inl (HTTPException 500 (lit ''Database not available''))"
proof -
  have g: "store_one (lit ''theme'') (Some 50) = Inr [doc_dark]" by (simp add: store_one_def)
  have f: "store_down (lit ''theme'') (Some 50) = Inl (lit ''Database not available'')"
    by (simp add: store_down_def)
  have k: "map_of doc_dark (lit ''_id'') = Some (Obj (lit ''65a1b2c3d4e5f60718293a4b''))"
    by code_simp
  have n: "map_of doc_dark (lit ''name'') = Some (Str (lit ''dark''))"
    and ne: "lit ''name'' \<noteq> lit ''_id''" "lit ''name'' \<noteq> lit ''id''"
    by code_simp+
  from list_themes_rekeys [where get_documents = store_one and so = id and limit = "Some 50"
             and docs = "[doc_dark]"] g
  obtain items where i: "list_themes id store_one (Some 50) = Inr [(lit ''items'', items)]"
      "length items = 1"
      "\<forall>i<length [doc_dark].
               case map_of ([doc_dark] ! i) (lit ''_id'') of
                 None \<Rightarrow> items ! i = [doc_dark] ! i
               | Some v \<Rightarrow>
                   map_of (items ! i) (lit ''_id'') = None
                   \<and> map_of (items ! i) (lit ''id'') = Some (Str (py_str id v))
                   \<and> (\<forall>k. k \<noteq> lit ''_id'' \<and> k \<noteq> lit ''id'' \<longrightarrow>
                           map_of (items ! i) k = map_of ([doc_dark] ! i) k)"
    by auto
  from i(3) k have "map_of (items ! 0) (lit ''_id'') = None
                   \<and> map_of (items ! 0) (lit ''id'') = Some (Str (lit ''65a1b2c3d4e5f60718293a4b''))
                   \<and> (\<forall>k. k \<noteq> lit ''_id'' \<and> k \<noteq> lit ''id'' \<longrightarrow>
                           map_of (items ! 0) k = map_of doc_dark k)"
    by simp
  with n ne have "map_of (items ! 0) (lit ''_id'') = None
      \<and> map_of (items ! 0) (lit ''id'') = Some (Str (lit ''65a1b2c3d4e5f60718293a4b''))
      \<and> map_of (items ! 0) (lit ''name'') = Some (Str (lit ''dark''))"
    by simp
  with i(1,2) have a: "\<exists>items. list_themes id store_one (Some 50) = Inr [(lit ''items'', items)]
      \<and> length items = 1
      \<and> map_of (items ! 0) (lit ''_id'') = None
      \<and> map_of (items ! 0) (lit ''id'') = Some (Str (lit ''65a1b2c3d4e5f60718293a4b''))
      \<and> map_of (items ! 0) (lit ''name'') = Some (Str (lit ''dark''))"
    by blast
  from list_themes_rekeys [where get_documents = store_down and so = id and limit = "Some 50"
             and m = "lit ''Database not available''"] f
  have b: "list_themes id store_down (Some 50) = Inl (HTTPException 500 (lit ''Database not available''))"
    by simp
  from a b show ?thesis by simp
qed

section \<open>GET /test: the two environment fields\<close>

text \<open>
  C9, as stated: the field \<open>database_url\<close> reads \<open>Set\<close> if and only if the variable
  \<open>DATABASE_URL\<close> is set. The handler tests the truth value of \<open>os.getenv\<close>: a variable
  that is set to the empty string is reported as \<open>Not Set\<close>.
\<close>

theorem test_database_empty_variable_not_set:
  "env_url_empty (lit ''DATABASE_URL'') \<noteq> None
   \<and> database_url (test_database (Some db_working) env_url_empty) = Some (cross_mark ''Not Set'')
   \<and> cross_mark ''Not Set'' \<noteq> check_mark ''Set''"
  by code_simp

lemma probe_sets_fields:
  "db_name h = Name s \<Longrightarrow>
     database_url (probe_database (Some h) r) = Some (check_mark ''Configured'')
     \<and> database_name (probe_database (Some h) r) = Some s"
  by (simp add: probe_database_def Let_def split: sum.splits)

text \<open>
  C9, amended. In every response of the handler, \<open>database_url\<close> and \<open>database_name\<close>
  read \<open>Set\<close> if and only if \<open>DATABASE_URL\<close> and \<open>DATABASE_NAME\<close>, respectively, are
  set to a non-empty string, and \<open>Not Set\<close> otherwise. The last two assignments overwrite
  what the branches on the database handle stored there (\<open>probe_sets_fields\<close>), so the two
  fields are the same for any two database handles.
\<close>

theorem test_database_env_fields:
  "database_url (test_database db getenv)
     = Some (if env_truthy (getenv (lit ''DATABASE_URL''))
             then check_mark ''Set'' else cross_mark ''Not Set'')
   \<and> database_name (test_database db getenv)
     = Some (if env_truthy (getenv (lit ''DATABASE_NAME''))
             then check_mark ''Set'' else cross_mark ''Not Set'')
   \<and> database_url (test_database db getenv) = database_url (test_database db' getenv)
   \<and> database_name (test_database db getenv) = database_name (test_database db' getenv)"
  by (simp add: test_database_def Let_def)

theorem test_database_env_fields_witness:
  "database_url (test_database (Some db_working) env_both) = Some (check_mark ''Set'')
   \<and> database_name (test_database (Some db_working) env_both) = Some (check_mark ''Set'')
   \<and> database_url (test_database None env_unset) = Some (cross_mark ''Not Set'')
   \<and> database_name (test_database None env_unset) = Some (cross_mark ''Not Set'')"
proof -
  have e: "env_truthy (env_both (lit ''DATABASE_URL''))" "env_truthy (env_both (lit ''DATABASE_NAME''))"
    "\<not> env_truthy (env_unset (lit ''DATABASE_URL''))" "\<not> env_truthy (env_unset (lit ''DATABASE_NAME''))"
    by code_simp+
  from test_database_env_fields [of "Some db_working" env_both None]
       test_database_env_fields [of None env_unset None] e
  show ?thesis by simp
qed

end
